theory Spec2Isabelle
  imports Complex_Main "HOL-Library.AList"
begin

section \<open>Conventions of the embedding\<close>

text \<open>
  The Python sources are embedded as follows.
  \<^item> A Python \<open>float\<close> is a \<^typ>\<open>real\<close>: arithmetic is exact, rounding is not modelled.
  \<^item> \<open>datetime.now()\<close> is a clock reading of type \<^typ>\<open>nat\<close>, passed to the function
    that reads the clock.
  \<^item> A dictionary that is only looked up by key is a map; a dictionary whose values are
    iterated or summed is an association list in insertion order.
  \<^item> A mutating method takes the object and returns the updated object.
  \<^item> An exception is a value of \<open>py_error\<close>; \<open>HandlerError\<close> stands for whatever a
    strategy's \<open>on_order_update\<close> raises.
  \<^item> Logging is omitted; it has no effect on the state.
  \<^item> Where two classes of the source have an attribute of the same name, the record field
    of \<open>RiskManager\<close> carries the prefix \<open>rm_\<close>.
\<close>

datatype py_error = KeyError | ZeroDivisionError | TypeError | HandlerError

text \<open>
  The dictionaries of \<open>RiskManager\<close> are keyed by the account id that
  \<open>update_position\<close> receives. The callback registered in \<open>main.py\<close> passes
  \<open>order.account_id\<close>, which is Python's \<open>None\<close> for an intent without an account hint,
  so a key is an optional string.
\<close>

type_synonym account_key = "string option"

section \<open>Order intents (the dictionaries produced by strategies)\<close>

text \<open>
  An intent is a dictionary; a field is \<open>None\<close> when the key is absent. The keys
  \<open>ticker\<close>, \<open>side\<close>, \<open>quantity\<close> and \<open>price\<close> are read with \<open>order_data[...]\<close>, which
  raises \<open>KeyError\<close> on an absent key; the others are read with \<open>.get\<close>.
\<close>

record order_data =
  od_account_id :: "string option"
  od_ticker :: "string option"
  od_side :: "string option"
  od_quantity :: "real option"
  od_price :: "real option"
  od_type :: "string option"
  od_strategy :: "string option"
  od_grid_level :: "int option"

section \<open>risk\_manager.py\<close>

record RiskMetrics =
  max_drawdown :: real
  current_drawdown :: real
  var_95 :: real
  sharpe_ratio :: real
  win_rate :: real
  profit_factor :: real
  total_pnl :: real
  daily_pnl :: real

text \<open>
  A trade record is the dictionary built in \<open>update_position\<close>. The key \<open>pnl\<close> is the one
  that \<open>update_risk_metrics\<close> and \<open>_calculate_equity_curve\<close> read with
  \<open>trade.get('pnl', 0)\<close>; it is \<open>None\<close> when the key is absent.
\<close>

record Trade =
  t_timestamp :: nat
  t_account_id :: account_key
  t_ticker :: string
  t_side :: string
  t_quantity :: real
  t_price :: real
  t_value :: real
  t_pnl :: "real option"

record RiskConfig =
  cfg_max_daily_loss :: "real option"
  cfg_max_position_size :: "real option"
  cfg_max_drawdown_limit :: "real option"
  cfg_max_leverage :: "real option"

record RiskManager =
  max_daily_loss :: real
  rm_max_position_size :: real
  max_drawdown_limit :: real
  max_leverage :: real
  rm_positions :: "account_key \<rightharpoonup> (string \<rightharpoonup> real)"
  rm_daily_pnl :: "account_key \<rightharpoonup> real"
  trade_history :: "Trade list"
  risk_metrics :: RiskMetrics
  is_risk_mode :: bool
  emergency_stop :: bool

definition get_or :: "'a option \<Rightarrow> 'a \<Rightarrow> 'a" where
  "get_or v d = (case v of None \<Rightarrow> d | Some x \<Rightarrow> x)"

definition RiskMetrics_init :: RiskMetrics where
  "RiskMetrics_init =
     \<lparr>max_drawdown = 0, current_drawdown = 0, var_95 = 0, sharpe_ratio = 0,
      win_rate = 0, profit_factor = 0, total_pnl = 0, daily_pnl = 0\<rparr>"

definition RiskManager_init :: "RiskConfig \<Rightarrow> RiskManager" where
  "RiskManager_init config =
     \<lparr>max_daily_loss = get_or (cfg_max_daily_loss config) 1000,
      rm_max_position_size = get_or (cfg_max_position_size config) 10000,
      max_drawdown_limit = get_or (cfg_max_drawdown_limit config) (1 / 10),
      max_leverage = get_or (cfg_max_leverage config) 3,
      rm_positions = Map.empty,
      rm_daily_pnl = Map.empty,
      trade_history = [],
      risk_metrics = RiskMetrics_init,
      is_risk_mode = False,
      emergency_stop = False\<rparr>"

definition check_position_limits ::
  "RiskManager \<Rightarrow> account_key \<Rightarrow> string \<Rightarrow> real \<Rightarrow> string \<Rightarrow> bool \<times> RiskManager" where
  "check_position_limits rm account_id ticker quantity side =
     (let account_positions = get_or (rm_positions rm account_id) Map.empty;
          rm1 = rm\<lparr>rm_positions := (rm_positions rm)(account_id \<mapsto> account_positions)\<rparr>;
          current_position = get_or (account_positions ticker) 0;
          new_position = (if side = ''buy'' then current_position + quantity
                          else current_position - quantity)
      in if \<bar>new_position\<bar> > rm_max_position_size rm1 then (False, rm1) else (True, rm1))"

definition check_daily_loss_limit :: "RiskManager \<Rightarrow> account_key \<Rightarrow> bool \<times> RiskManager" where
  "check_daily_loss_limit rm account_id =
     (let current_daily_pnl = get_or (rm_daily_pnl rm account_id) 0
      in if current_daily_pnl < - max_daily_loss rm
         then (False, rm\<lparr>is_risk_mode := True\<rparr>) else (True, rm))"

definition check_margin_requirements ::
  "RiskManager \<Rightarrow> account_key \<Rightarrow> real \<Rightarrow> real \<Rightarrow> py_error + bool" where
  "check_margin_requirements rm account_id quantity price =
     (if max_leverage rm = 0 then Inl ZeroDivisionError else Inr True)"

definition check_drawdown_limit :: "RiskManager \<Rightarrow> account_key \<Rightarrow> bool \<times> RiskManager" where
  "check_drawdown_limit rm account_id =
     (if current_drawdown (risk_metrics rm) > max_drawdown_limit rm
      then (False, rm\<lparr>is_risk_mode := True\<rparr>) else (True, rm))"

text \<open>
  \<open>check_pre_trade_risk\<close> returns the verdict, or the exception it raised, together
  with the manager as the call left it.
\<close>

definition check_pre_trade_risk ::
  "RiskManager \<Rightarrow> order_data \<Rightarrow> (py_error + bool) \<times> RiskManager" where
  "check_pre_trade_risk rm od =
     (let account_id = get_or (od_account_id od) ''default'' in
      case od_ticker od of None \<Rightarrow> (Inl KeyError, rm) | Some ticker \<Rightarrow>
      case od_side od of None \<Rightarrow> (Inl KeyError, rm) | Some side \<Rightarrow>
      case od_quantity od of None \<Rightarrow> (Inl KeyError, rm) | Some quantity \<Rightarrow>
      case od_price od of None \<Rightarrow> (Inl KeyError, rm) | Some price \<Rightarrow>
      if emergency_stop rm then (Inr False, rm)
      else case check_position_limits rm (Some account_id) ticker quantity side of
        (False, rm1) \<Rightarrow> (Inr False, rm1)
      | (True, rm1) \<Rightarrow>
      case check_daily_loss_limit rm1 (Some account_id) of
        (False, rm2) \<Rightarrow> (Inr False, rm2)
      | (True, rm2) \<Rightarrow>
      case check_margin_requirements rm2 (Some account_id) quantity price of
        Inl e \<Rightarrow> (Inl e, rm2)
      | Inr False \<Rightarrow> (Inr False, rm2)
      | Inr True \<Rightarrow>
      case check_drawdown_limit rm2 (Some account_id) of
        (False, rm3) \<Rightarrow> (Inr False, rm3)
      | (True, rm3) \<Rightarrow> (Inr True, rm3))"

definition update_pnl ::
  "RiskManager \<Rightarrow> account_key \<Rightarrow> string \<Rightarrow> string \<Rightarrow> real \<Rightarrow> real \<Rightarrow> RiskManager" where
  "update_pnl rm account_id ticker side quantity price =
     (let trade_value = quantity * price in
      if side = ''sell'' then
        (let current = get_or (rm_daily_pnl rm account_id) 0;
             pnl = trade_value * (1 / 1000);
             m = risk_metrics rm
         in rm\<lparr>rm_daily_pnl := (rm_daily_pnl rm)(account_id \<mapsto> current + pnl),
                risk_metrics := m\<lparr>daily_pnl := daily_pnl m + pnl,
                                   total_pnl := total_pnl m + pnl\<rparr>\<rparr>)
      else rm)"

definition update_position ::
  "RiskManager \<Rightarrow> nat \<Rightarrow> account_key \<Rightarrow> string \<Rightarrow> string \<Rightarrow> real \<Rightarrow> real \<Rightarrow> RiskManager" where
  "update_position rm now account_id ticker side quantity price =
     (let account_positions = get_or (rm_positions rm account_id) Map.empty;
          current_position = get_or (account_positions ticker) 0;
          new_position = (if side = ''buy'' then current_position + quantity
                          else current_position - quantity);
          trade = \<lparr>t_timestamp = now, t_account_id = account_id, t_ticker = ticker,
                   t_side = side, t_quantity = quantity, t_price = price,
                   t_value = quantity * price, t_pnl = None\<rparr>;
          rm1 = rm\<lparr>rm_positions :=
                       (rm_positions rm)(account_id \<mapsto> account_positions(ticker \<mapsto> new_position)),
                   trade_history := trade_history rm @ [trade]\<rparr>
      in update_pnl rm1 account_id ticker side quantity price)"

definition calculate_equity_curve :: "RiskManager \<Rightarrow> real list" where
  "calculate_equity_curve rm =
     fold (\<lambda>trade equity_curve. equity_curve @ [last equity_curve + get_or (t_pnl trade) 0])
          (trade_history rm) [10000]"

text \<open>
  \<open>max(equity_curve)\<close> and \<open>equity_curve[-1]\<close> are only reached for a non-empty curve
  (\<open>if equity_curve:\<close>); the division raises \<open>ZeroDivisionError\<close> for a zero peak.
\<close>

definition update_risk_metrics :: "RiskManager \<Rightarrow> py_error + RiskManager" where
  "update_risk_metrics rm =
     (if trade_history rm = [] then Inr rm
      else
        let profitable_trades = filter (\<lambda>t. get_or (t_pnl t) 0 > 0) (trade_history rm);
            m1 = (risk_metrics rm)
                   \<lparr>win_rate := real (length profitable_trades) / real (length (trade_history rm))\<rparr>
        in case calculate_equity_curve rm of
             [] \<Rightarrow> Inr (rm\<lparr>risk_metrics := m1\<rparr>)
           | e # es \<Rightarrow>
               let max_equity = fold max es e;
                   current_equity = last (e # es)
               in if max_equity = 0 then Inl ZeroDivisionError
                  else
                    let dd = (max_equity - current_equity) / max_equity
                    in Inr (rm\<lparr>risk_metrics :=
                                 m1\<lparr>current_drawdown := dd,
                                    max_drawdown := max (max_drawdown m1) dd\<rparr>\<rparr>))"

definition emergency_stop_all :: "RiskManager \<Rightarrow> RiskManager" where
  "emergency_stop_all rm =
     rm\<lparr>emergency_stop := True,
        rm_positions := (\<lambda>a. map_option (\<lambda>m. (\<lambda>t. map_option (\<lambda>_. 0) (m t))) (rm_positions rm a))\<rparr>"

definition position_of :: "RiskManager \<Rightarrow> account_key \<Rightarrow> string \<Rightarrow> real" where
  "position_of rm account_id ticker =
     get_or (get_or (rm_positions rm account_id) Map.empty ticker) 0"

text \<open>The configuration without any key: every limit takes its default.\<close>

definition default_risk_config :: RiskConfig where
  "default_risk_config =
     \<lparr>cfg_max_daily_loss = None, cfg_max_position_size = None,
      cfg_max_drawdown_limit = None, cfg_max_leverage = None\<rparr>"

text \<open>A configuration whose drawdown limit is negative; the other limits are defaults.\<close>

definition negative_limit_config :: RiskConfig where
  "negative_limit_config =
     \<lparr>cfg_max_daily_loss = None, cfg_max_position_size = None,
      cfg_max_drawdown_limit = Some (- (1 / 100)), cfg_max_leverage = None\<rparr>"

section \<open>Auxiliary notions for the risk manager\<close>

text \<open>An intent that carries the four keys read with \<open>order_data[...]\<close>.\<close>

definition has_required_keys :: "order_data \<Rightarrow> bool" where
  "has_required_keys od \<longleftrightarrow>
     od_ticker od \<noteq> None \<and> od_side od \<noteq> None \<and> od_quantity od \<noteq> None \<and> od_price od \<noteq> None"

text \<open>Sequences of calls of \<open>update_position\<close> and \<open>update_risk_metrics\<close>.\<close>

datatype rm_call =
    UpdatePosition nat account_key string string real real
  | UpdateRiskMetrics

fun run_call :: "RiskManager \<Rightarrow> rm_call \<Rightarrow> py_error + RiskManager" where
  "run_call rm (UpdatePosition now a t side q p) = Inr (update_position rm now a t side q p)"
| "run_call rm UpdateRiskMetrics = update_risk_metrics rm"

fun run_calls :: "RiskManager \<Rightarrow> rm_call list \<Rightarrow> py_error + RiskManager" where
  "run_calls rm [] = Inr rm"
| "run_calls rm (c # cs) =
     (case run_call rm c of Inl e \<Rightarrow> Inl e | Inr rm' \<Rightarrow> run_calls rm' cs)"

text \<open>No trade record of the list has the key \<open>pnl\<close>.\<close>

definition no_pnl_key :: "Trade list \<Rightarrow> bool" where
  "no_pnl_key ts = list_all (\<lambda>t. t_pnl t = None) ts"

definition metrics_flat :: "RiskManager \<Rightarrow> bool" where
  "metrics_flat rm \<longleftrightarrow>
     no_pnl_key (trade_history rm) \<and> win_rate (risk_metrics rm) = 0 \<and>
     current_drawdown (risk_metrics rm) = 0 \<and> max_drawdown (risk_metrics rm) = 0"

section \<open>account\_manager.py\<close>

text \<open>
  \<open>balance\<close> and \<open>available_balance\<close> are association lists, since their values are
  summed; \<open>positions\<close> is only looked up. The dictionary \<open>accounts\<close> is an association
  list in insertion order; \<open>AList.update\<close> is Python's \<open>d[k] = v\<close>: it replaces the value
  of a key that is present and appends a new key at the end. A configuration entry
  without \<open>account_id\<close>, \<open>api_key\<close> or \<open>api_secret\<close> raises \<open>KeyError\<close>.
\<close>

record Account =
  account_id :: string
  api_key :: string
  api_secret :: string
  balance :: "(string \<times> real) list"
  available_balance :: "(string \<times> real) list"
  positions :: "string \<rightharpoonup> real"
  risk_limit :: real
  max_position_size :: real
  is_active :: bool

record AccountConfig =
  ac_account_id :: "string option"
  ac_api_key :: "string option"
  ac_api_secret :: "string option"
  ac_balance :: "(string \<times> real) list option"
  ac_available_balance :: "(string \<times> real) list option"
  ac_positions :: "(string \<rightharpoonup> real) option"
  ac_risk_limit :: "real option"
  ac_max_position_size :: "real option"

record AccountManager =
  accounts :: "(string \<times> Account) list"

definition Account_of_config :: "AccountConfig \<Rightarrow> py_error + Account" where
  "Account_of_config account_config =
     (case ac_account_id account_config of None \<Rightarrow> Inl KeyError | Some aid \<Rightarrow>
      case ac_api_key account_config of None \<Rightarrow> Inl KeyError | Some key \<Rightarrow>
      case ac_api_secret account_config of None \<Rightarrow> Inl KeyError | Some secret \<Rightarrow>
      Inr \<lparr>account_id = aid, api_key = key, api_secret = secret,
           balance = get_or (ac_balance account_config) [],
           available_balance = get_or (ac_available_balance account_config) [],
           positions = get_or (ac_positions account_config) Map.empty,
           risk_limit = get_or (ac_risk_limit account_config) (2 / 100),
           max_position_size = get_or (ac_max_position_size account_config) 1000,
           is_active = True\<rparr>)"

fun initialize_accounts ::
  "AccountConfig list \<Rightarrow> (string \<times> Account) list \<Rightarrow> py_error + (string \<times> Account) list" where
  "initialize_accounts [] accs = Inr accs"
| "initialize_accounts (account_config # rest) accs =
     (case Account_of_config account_config of
        Inl e \<Rightarrow> Inl e
      | Inr account \<Rightarrow> initialize_accounts rest (AList.update (account_id account) account accs))"

definition AccountManager_init :: "AccountConfig list \<Rightarrow> py_error + AccountManager" where
  "AccountManager_init accounts_config =
     (case initialize_accounts accounts_config [] of
        Inl e \<Rightarrow> Inl e
      | Inr accs \<Rightarrow> Inr \<lparr>accounts = accs\<rparr>)"

definition get_account :: "AccountManager \<Rightarrow> string \<Rightarrow> Account option" where
  "get_account am aid = map_of (accounts am) aid"

definition get_active_accounts :: "AccountManager \<Rightarrow> Account list" where
  "get_active_accounts am = filter is_active (map snd (accounts am))"

definition check_risk_limits :: "AccountManager \<Rightarrow> string \<Rightarrow> real \<Rightarrow> string \<Rightarrow> bool" where
  "check_risk_limits am aid new_position_size ticker =
     (case get_account am aid of
        None \<Rightarrow> False
      | Some account \<Rightarrow>
          let current_position = get_or (positions account ticker) 0;
              total_position = \<bar>current_position + new_position_size\<bar>
          in if total_position > max_position_size account then False
             else
               let account_value = sum_list (map snd (balance account));
                   position_value = total_position;
                   risk_ratio = (if account_value > 0 then position_value / account_value else 1)
               in if risk_ratio > risk_limit account then False else True)"

definition allocate_funds ::
  "AccountManager \<Rightarrow> real \<Rightarrow> string \<Rightarrow> py_error + (string \<times> real) list" where
  "allocate_funds am total_amount allocation_strategy =
     (let active_accounts = get_active_accounts am in
      if active_accounts = [] then Inr []
      else if allocation_strategy = ''equal'' then
        (let amount_per_account = total_amount / real (length active_accounts)
         in Inr (fold (\<lambda>account allocation.
                         AList.update (account_id account) amount_per_account allocation)
                      active_accounts []))
      else if allocation_strategy = ''risk_weighted'' then
        (let total_risk_capacity = sum_list (map risk_limit active_accounts)
         in if total_risk_capacity = 0 then Inl ZeroDivisionError
            else Inr (fold (\<lambda>account allocation.
                         AList.update (account_id account)
                           (total_amount * (risk_limit account / total_risk_capacity)) allocation)
                      active_accounts []))
      else if allocation_strategy = ''balance_weighted'' then
        (let total_balance =
               sum_list (map (\<lambda>acc. sum_list (map snd (balance acc))) active_accounts)
         in if total_balance > 0
            then Inr (fold (\<lambda>account allocation.
                         AList.update (account_id account)
                           (total_amount * (sum_list (map snd (balance account)) / total_balance))
                           allocation)
                      active_accounts [])
            else Inr [])
      else Inr [])"

text \<open>
  The registry of accounts is keyed by the account's own id, each key once: the invariant
  that \<open>_initialize_accounts\<close> establishes.
\<close>

definition keyed_by_id :: "(string \<times> Account) list \<Rightarrow> bool" where
  "keyed_by_id accs \<longleftrightarrow>
     distinct (map fst accs) \<and> list_all (\<lambda>p. account_id (snd p) = fst p) accs"


text \<open>An account whose balances sum to 0, first with the default limits.\<close>

definition empty_account_config :: AccountConfig where
  "empty_account_config =
     \<lparr>ac_account_id = Some ''acc1'', ac_api_key = Some ''k'', ac_api_secret = Some ''s'',
      ac_balance = None, ac_available_balance = None, ac_positions = None,
      ac_risk_limit = None, ac_max_position_size = None\<rparr>"

definition empty_account :: Account where
  "empty_account =
     \<lparr>account_id = ''acc1'', api_key = ''k'', api_secret = ''s'', balance = [],
      available_balance = [], positions = Map.empty, risk_limit = 2 / 100,
      max_position_size = 1000, is_active = True\<rparr>"

text \<open>Three accounts, the second one deactivated.\<close>

definition three_accounts :: AccountManager where
  "three_accounts =
     \<lparr>accounts = [(''acc1'', empty_account),
                  (''acc2'', empty_account\<lparr>account_id := ''acc2'', is_active := False\<rparr>),
                  (''acc3'', empty_account\<lparr>account_id := ''acc3''\<rparr>)]\<rparr>"

section \<open>strategies/grid\_trading.py\<close>

text \<open>
  The market snapshot maps a ticker to its entry. The strategy object holds the attributes
  read by \<open>execute\<close>; \<open>tickers\<close> is \<open>config.get('tickers', [])\<close>.
\<close>

record MarketEntry =
  md_price :: real
  md_volume :: real
  md_timestamp :: nat

record GridTradingStrategy =
  name :: string
  is_running :: bool
  tickers :: "string list"
  grid_count :: int
  grid_spacing :: real
  base_volume :: real
  center_price :: "real option"

text \<open>
  Python's \<open>range(a, b)\<close> for integers. The bounds of the grid are
  \<open>-self.grid_count//2\<close>, which Python reads as \<open>(-self.grid_count)//2\<close>, and
  \<open>self.grid_count//2 + 1\<close>; \<open>//\<close> rounds towards minus infinity, as \<open>div\<close> does.
\<close>

definition py_range :: "int \<Rightarrow> int \<Rightarrow> int list" where
  "py_range a b = [a .. b - 1]"

text \<open>
  One iteration of the loop of \<open>_generate_grid_orders\<close>: the orders it appends. A
  \<open>center_price\<close> that is still \<open>None\<close> makes the multiplication raise \<open>TypeError\<close>.
\<close>

definition grid_level_orders ::
  "GridTradingStrategy \<Rightarrow> string \<Rightarrow> real \<Rightarrow> int \<Rightarrow> py_error + order_data list" where
  "grid_level_orders g ticker current_price i =
     (if i = 0 then Inr []
      else case center_price g of
        None \<Rightarrow> Inl TypeError
      | Some center \<Rightarrow>
          let grid_price = center * (1 + real_of_int i * grid_spacing g) in
          if grid_price < current_price then
            Inr [\<lparr>od_account_id = None, od_ticker = Some ticker, od_side = Some ''buy'',
                   od_quantity = Some (base_volume g), od_price = Some grid_price,
                   od_type = Some ''limit'', od_strategy = Some (name g),
                   od_grid_level = Some i\<rparr>]
          else if grid_price > current_price then
            Inr [\<lparr>od_account_id = None, od_ticker = Some ticker, od_side = Some ''sell'',
                   od_quantity = Some (base_volume g), od_price = Some grid_price,
                   od_type = Some ''limit'', od_strategy = Some (name g),
                   od_grid_level = Some i\<rparr>]
          else Inr [])"

fun grid_loop ::
  "GridTradingStrategy \<Rightarrow> string \<Rightarrow> real \<Rightarrow> int list \<Rightarrow> order_data list
     \<Rightarrow> py_error + order_data list" where
  "grid_loop g ticker current_price [] orders = Inr orders"
| "grid_loop g ticker current_price (i # levels) orders =
     (case grid_level_orders g ticker current_price i of
        Inl e \<Rightarrow> Inl e
      | Inr new \<Rightarrow> grid_loop g ticker current_price levels (orders @ new))"

definition generate_grid_orders ::
  "GridTradingStrategy \<Rightarrow> string \<Rightarrow> real \<Rightarrow> py_error + order_data list" where
  "generate_grid_orders g ticker current_price =
     grid_loop g ticker current_price
       (py_range ((- grid_count g) div 2) (grid_count g div 2 + 1)) []"

fun execute_loop ::
  "GridTradingStrategy \<Rightarrow> (string \<rightharpoonup> MarketEntry) \<Rightarrow> string list \<Rightarrow> order_data list
     \<Rightarrow> (py_error + order_data list) \<times> GridTradingStrategy" where
  "execute_loop g market_data [] orders = (Inr orders, g)"
| "execute_loop g market_data (ticker # rest) orders =
     (case market_data ticker of
        None \<Rightarrow> execute_loop g market_data rest orders
      | Some entry \<Rightarrow>
          let current_price = md_price entry;
              g1 = (if center_price g = None then g\<lparr>center_price := Some current_price\<rparr> else g)
          in case generate_grid_orders g1 ticker current_price of
               Inl e \<Rightarrow> (Inl e, g1)
             | Inr grid_orders \<Rightarrow> execute_loop g1 market_data rest (orders @ grid_orders))"

definition execute ::
  "GridTradingStrategy \<Rightarrow> (string \<rightharpoonup> MarketEntry)
     \<Rightarrow> (py_error + order_data list) \<times> GridTradingStrategy" where
  "execute g market_data =
     (if \<not> is_running g then (Inr [], g) else execute_loop g market_data (tickers g) [])"

text \<open>The dictionary of one grid order, for stating what \<open>execute\<close> returns.\<close>

definition grid_order :: "string \<Rightarrow> string \<Rightarrow> string \<Rightarrow> real \<Rightarrow> int \<Rightarrow> real \<Rightarrow> order_data" where
  "grid_order strategy ticker side volume level price =
     \<lparr>od_account_id = None, od_ticker = Some ticker, od_side = Some side,
      od_quantity = Some volume, od_price = Some price, od_type = Some ''limit'',
      od_strategy = Some strategy, od_grid_level = Some level\<rparr>"


record GridConfig =
  gc_tickers :: "string list option"
  gc_grid_count :: "int option"
  gc_grid_spacing :: "real option"
  gc_base_volume :: "real option"
  gc_center_price :: "real option"

definition GridTradingStrategy_init :: "GridConfig \<Rightarrow> GridTradingStrategy" where
  "GridTradingStrategy_init config =
     \<lparr>name = ''GridTrading'', is_running = False,
      tickers = get_or (gc_tickers config) [],
      grid_count = get_or (gc_grid_count config) 10,
      grid_spacing = get_or (gc_grid_spacing config) (5 / 1000),
      base_volume = get_or (gc_base_volume config) (1 / 10),
      center_price = gc_center_price config\<rparr>"

definition start :: "GridTradingStrategy \<Rightarrow> GridTradingStrategy" where
  "start g = g\<lparr>is_running := True\<rparr>"

definition grid_example_config :: GridConfig where
  "grid_example_config =
     \<lparr>gc_tickers = Some [''BTCUSD''], gc_grid_count = None, gc_grid_spacing = None,
      gc_base_volume = None, gc_center_price = None\<rparr>"

section \<open>trading\_engine.py, with the callback wiring of main.py\<close>

text \<open>
  \<open>order_id\<close> is a \<open>uuid4\<close> string in the source; here it is the position the order
  takes in the registry, which is unique as a fresh uuid is taken to be. The registry
  \<open>self.orders\<close> is the list of its orders in insertion order; an order object that is
  mutated after it was registered is mutated in the registry. \<open>metadata\<close> is not read by
  the engine and is left out.
\<close>

record Order =
  order_id :: nat
  o_account_id :: "string option"
  o_ticker :: string
  o_side :: string
  o_quantity :: real
  o_price :: real
  order_type :: string
  status :: string
  o_strategy :: string
  created_at :: nat
  filled_quantity :: real
  remaining_quantity :: real

record OrderUpdate =
  ou_order_id :: nat
  ou_account_id :: "string option"
  ou_ticker :: string
  ou_side :: string
  ou_quantity :: real
  ou_filled_quantity :: real
  ou_price :: real
  ou_status :: string
  ou_strategy :: string
  ou_timestamp :: nat

text \<open>
  The state that submission and reconciliation read and write: the engine's account
  manager, the keys of its \<open>clients\<close> dictionary, its order registry, and the risk manager
  that \<open>main.py\<close> registers as an order-update callback. The engine itself holds no
  reference to the risk manager.
\<close>

record TradingSystem =
  account_manager :: AccountManager
  clients :: "string list"
  orders :: "Order list"
  risk_manager :: RiskManager

definition Order_init :: "order_data \<Rightarrow> nat \<Rightarrow> nat \<Rightarrow> py_error + Order" where
  "Order_init od oid now =
     (case od_ticker od of None \<Rightarrow> Inl KeyError | Some ticker \<Rightarrow>
      case od_side od of None \<Rightarrow> Inl KeyError | Some side \<Rightarrow>
      case od_quantity od of None \<Rightarrow> Inl KeyError | Some quantity \<Rightarrow>
      case od_price od of None \<Rightarrow> Inl KeyError | Some price \<Rightarrow>
      Inr \<lparr>order_id = oid, o_account_id = od_account_id od, o_ticker = ticker, o_side = side,
           o_quantity = quantity, o_price = price, order_type = get_or (od_type od) ''limit'',
           status = ''pending'', o_strategy = get_or (od_strategy od) ''unknown'',
           created_at = now, filled_quantity = 0, remaining_quantity = quantity\<rparr>)"

definition TradingSystem_init :: "AccountConfig list \<Rightarrow> RiskConfig \<Rightarrow> py_error + TradingSystem" where
  "TradingSystem_init accounts_config risk_config =
     (case AccountManager_init accounts_config of
        Inl e \<Rightarrow> Inl e
      | Inr am \<Rightarrow>
          Inr \<lparr>account_manager = am,
               clients = map account_id (get_active_accounts am),
               orders = [],
               risk_manager = RiskManager_init risk_config\<rparr>)"

text \<open>
  The second callback registered in \<open>main.py\<close>; the first one, the monitoring sink, does
  not touch this state.
\<close>

definition risk_callback :: "OrderUpdate \<Rightarrow> RiskManager \<Rightarrow> RiskManager" where
  "risk_callback order_update rm =
     update_position rm (ou_timestamp order_update) (ou_account_id order_update)
       (ou_ticker order_update) (ou_side order_update) (ou_filled_quantity order_update)
       (ou_price order_update)"

text \<open>
  \<open>_notify_order_update\<close> first awaits the handler of the order's strategy, outside any
  \<open>try\<close>: \<open>strategy_raises\<close> tells for which updates that handler raises. Only then are
  the callbacks called, each in its own \<open>try\<close>. The result is the exception, or the risk
  manager after the callback.
\<close>

definition notify_order_update ::
  "(OrderUpdate \<Rightarrow> bool) \<Rightarrow> nat \<Rightarrow> Order \<Rightarrow> RiskManager \<Rightarrow> py_error + RiskManager" where
  "notify_order_update strategy_raises now order rm =
     (let order_update =
            \<lparr>ou_order_id = order_id order, ou_account_id = o_account_id order,
             ou_ticker = o_ticker order, ou_side = o_side order, ou_quantity = o_quantity order,
             ou_filled_quantity = filled_quantity order, ou_price = o_price order,
             ou_status = status order, ou_strategy = o_strategy order, ou_timestamp = now\<rparr>
      in if strategy_raises order_update then Inl HandlerError
         else Inr (risk_callback order_update rm))"

text \<open>
  \<open>_submit_order\<close>. An exception of \<open>Order(order_data)\<close> is caught by the outer handler
  and nothing is registered. \<open>order.account_id or "default"\<close> takes the default for
  \<open>None\<close> and for the empty string. An exception of the notification is caught by the
  inner handler, which marks the registered order failed and notifies again; an exception
  of that second notification is caught by the outer handler.
\<close>

definition submit_order ::
  "(OrderUpdate \<Rightarrow> bool) \<Rightarrow> nat \<Rightarrow> order_data \<Rightarrow> TradingSystem \<Rightarrow> TradingSystem" where
  "submit_order strategy_raises now od s =
     (case Order_init od (length (orders s)) now of
        Inl e \<Rightarrow> s
      | Inr order \<Rightarrow>
          let aid = (case o_account_id order of
                       None \<Rightarrow> ''default''
                     | Some a \<Rightarrow> if a = [] then ''default'' else a)
          in if \<not> check_risk_limits (account_manager s) aid (o_quantity order) (o_ticker order)
             then s
             else if aid \<notin> set (clients s) then s
             else
               let submitted = order\<lparr>status := ''submitted''\<rparr>
               in case notify_order_update strategy_raises now submitted (risk_manager s) of
                    Inr rm \<Rightarrow> s\<lparr>orders := orders s @ [submitted], risk_manager := rm\<rparr>
                  | Inl e \<Rightarrow>
                      let failed = submitted\<lparr>status := ''failed''\<rparr>
                      in case notify_order_update strategy_raises now failed (risk_manager s) of
                           Inr rm \<Rightarrow> s\<lparr>orders := orders s @ [failed], risk_manager := rm\<rparr>
                         | Inl e' \<Rightarrow> s\<lparr>orders := orders s @ [failed]\<rparr>)"

text \<open>
  \<open>_update_order_status\<close>: the body of its loop, and the loop over the registry. None of
  the coroutines involved suspends between two of these writes, so a call of
  \<open>_submit_order\<close> or of \<open>_update_order_status\<close> is one atomic step of the event loop.
\<close>

definition update_one_order ::
  "(OrderUpdate \<Rightarrow> bool) \<Rightarrow> nat \<Rightarrow> Order \<Rightarrow> RiskManager \<Rightarrow> Order \<times> RiskManager" where
  "update_one_order strategy_raises now order rm =
     (if status order = ''submitted'' \<or> status order = ''partial'' then
        (if status order = ''submitted'' then
           (let filled = order\<lparr>status := ''filled'', filled_quantity := o_quantity order,
                               remaining_quantity := 0\<rparr>
            in case notify_order_update strategy_raises now filled rm of
                 Inr rm1 \<Rightarrow> (filled, rm1)
               | Inl e \<Rightarrow> (filled, rm))
         else (order, rm))
      else (order, rm))"

fun update_orders ::
  "(OrderUpdate \<Rightarrow> bool) \<Rightarrow> nat \<Rightarrow> Order list \<Rightarrow> RiskManager \<Rightarrow> Order list \<times> RiskManager" where
  "update_orders strategy_raises now [] rm = ([], rm)"
| "update_orders strategy_raises now (order # rest) rm =
     (case update_one_order strategy_raises now order rm of
        (order1, rm1) \<Rightarrow>
          (case update_orders strategy_raises now rest rm1 of
             (rest1, rm2) \<Rightarrow> (order1 # rest1, rm2)))"

definition update_order_status ::
  "(OrderUpdate \<Rightarrow> bool) \<Rightarrow> nat \<Rightarrow> TradingSystem \<Rightarrow> TradingSystem" where
  "update_order_status strategy_raises now s =
     (case update_orders strategy_raises now (orders s) (risk_manager s) of
        (os, rm) \<Rightarrow> s\<lparr>orders := os, risk_manager := rm\<rparr>)"

text \<open>Runs of the orchestrator: any sequence of submissions and reconciliations.\<close>

datatype engine_call = Submit nat order_data | Reconcile nat

fun engine_step :: "(OrderUpdate \<Rightarrow> bool) \<Rightarrow> engine_call \<Rightarrow> TradingSystem \<Rightarrow> TradingSystem" where
  "engine_step strategy_raises (Submit now od) s = submit_order strategy_raises now od s"
| "engine_step strategy_raises (Reconcile now) s = update_order_status strategy_raises now s"

definition run :: "(OrderUpdate \<Rightarrow> bool) \<Rightarrow> engine_call list \<Rightarrow> TradingSystem \<Rightarrow> TradingSystem" where
  "run strategy_raises calls s = fold (engine_step strategy_raises) calls s"

text \<open>The status of the order at position \<open>i\<close> of the registry, if there is one.\<close>

definition status_at :: "TradingSystem \<Rightarrow> nat \<Rightarrow> string option" where
  "status_at s i = (if i < length (orders s) then Some (status (orders s ! i)) else None)"

definition terminal :: "string \<Rightarrow> bool" where
  "terminal st \<longleftrightarrow> st = ''filled'' \<or> st = ''failed''"

definition next_status :: "string \<Rightarrow> string" where
  "next_status st = (if st = ''submitted'' then ''filled'' else st)"


text \<open>
  A system with one funded account under the default limits, the handler of strategies
  that never raise, and intents of that account.
\<close>

definition no_raise :: "OrderUpdate \<Rightarrow> bool" where
  "no_raise order_update = False"

definition funded_account_config :: AccountConfig where
  "funded_account_config =
     \<lparr>ac_account_id = Some ''acc1'', ac_api_key = Some ''k'', ac_api_secret = Some ''s'',
      ac_balance = Some [(''USD'', 100000)], ac_available_balance = None, ac_positions = None,
      ac_risk_limit = None, ac_max_position_size = None\<rparr>"

definition funded_account :: Account where
  "funded_account =
     \<lparr>account_id = ''acc1'', api_key = ''k'', api_secret = ''s'', balance = [(''USD'', 100000)],
      available_balance = [], positions = Map.empty, risk_limit = 2 / 100,
      max_position_size = 1000, is_active = True\<rparr>"

definition example_system :: TradingSystem where
  "example_system =
     \<lparr>account_manager = \<lparr>accounts = [(''acc1'', funded_account)]\<rparr>,
      clients = [''acc1''], orders = [],
      risk_manager = RiskManager_init default_risk_config\<rparr>"

definition stopped_system :: TradingSystem where
  "stopped_system =
     example_system\<lparr>risk_manager := emergency_stop_all (risk_manager example_system)\<rparr>"

definition example_intent :: "string \<Rightarrow> real \<Rightarrow> order_data" where
  "example_intent side quantity =
     \<lparr>od_account_id = Some ''acc1'', od_ticker = Some ''BTCUSD'', od_side = Some side,
      od_quantity = Some quantity, od_price = Some 100, od_type = Some ''limit'',
      od_strategy = Some ''SelfHedging'', od_grid_level = None\<rparr>"


definition example_calls :: "engine_call list" where
  "example_calls = [Submit 1 (example_intent ''buy'' 1), Reconcile 2]"

definition two_sells :: "engine_call list" where
  "two_sells =
     [Submit 1 (example_intent ''sell'' 600), Reconcile 2,
      Submit 3 (example_intent ''sell'' 600), Reconcile 4]"

section \<open>Properties of the risk manager\<close>

text \<open>
  C10. \<open>update_risk_metrics\<close> called with an empty trade history returns normally and
  leaves the whole manager, every risk metric included, as it was.
\<close>

theorem update_risk_metrics_empty_noop:
  "trade_history rm = [] \<Longrightarrow> update_risk_metrics rm = Inr rm"
  by (simp add: update_risk_metrics_def)

theorem update_risk_metrics_empty_noop_witness:
  "trade_history (RiskManager_init default_risk_config) = [] \<and>
   update_risk_metrics (RiskManager_init default_risk_config) =
     Inr (RiskManager_init default_risk_config)"
  using update_risk_metrics_empty_noop [of "RiskManager_init default_risk_config"]
  by (simp add: RiskManager_init_def)

subsection \<open>Recording a fill\<close>

lemma position_of_update_position_buy:
  "position_of (update_position rm now a t ''buy'' q p) a t = position_of rm a t + q"
  by (simp add: update_position_def update_pnl_def position_of_def get_or_def Let_def)

lemma position_of_update_position_other:
  "side \<noteq> ''buy'' \<Longrightarrow>
   position_of (update_position rm now a t side q p) a t = position_of rm a t - q"
  by (simp add: update_position_def update_pnl_def position_of_def get_or_def Let_def)

lemma position_of_update_position_frame:
  "(a', t') \<noteq> (a, t) \<Longrightarrow>
   position_of (update_position rm now a t side q p) a' t' = position_of rm a' t'"
  by (auto simp add: update_position_def update_pnl_def position_of_def get_or_def Let_def
      split: option.splits)

lemma trade_history_update_position:
  "trade_history (update_position rm now a t side q p) =
     trade_history rm @
       [\<lparr>t_timestamp = now, t_account_id = a, t_ticker = t, t_side = side,
         t_quantity = q, t_price = p, t_value = q * p, t_pnl = None\<rparr>]"
  by (simp add: update_position_def update_pnl_def Let_def)

lemma pnl_update_position_not_sell:
  "side \<noteq> ''sell'' \<Longrightarrow>
   rm_daily_pnl (update_position rm now a t side q p) = rm_daily_pnl rm \<and>
   risk_metrics (update_position rm now a t side q p) = risk_metrics rm"
  by (simp add: update_position_def update_pnl_def Let_def)

lemma pnl_update_position_sell:
  "rm_daily_pnl (update_position rm now a t ''sell'' q p) =
     (rm_daily_pnl rm)(a \<mapsto> get_or (rm_daily_pnl rm a) 0 + q * p * (1 / 1000)) \<and>
   risk_metrics (update_position rm now a t ''sell'' q p) =
     (risk_metrics rm)\<lparr>daily_pnl := daily_pnl (risk_metrics rm) + q * p * (1 / 1000),
                       total_pnl := total_pnl (risk_metrics rm) + q * p * (1 / 1000)\<rparr>"
  by (simp add: update_position_def update_pnl_def Let_def)

lemma limits_update_position:
  "max_daily_loss (update_position rm now a t side q p) = max_daily_loss rm \<and>
   rm_max_position_size (update_position rm now a t side q p) = rm_max_position_size rm \<and>
   max_drawdown_limit (update_position rm now a t side q p) = max_drawdown_limit rm \<and>
   max_leverage (update_position rm now a t side q p) = max_leverage rm \<and>
   is_risk_mode (update_position rm now a t side q p) = is_risk_mode rm \<and>
   emergency_stop (update_position rm now a t side q p) = emergency_stop rm"
  by (simp add: update_position_def update_pnl_def Let_def)

text \<open>
  C6. One call of \<open>update_position\<close> appends exactly one trade record (timestamp, account,
  ticker, side, quantity, price, notional). A buy adds the quantity to the signed position
  of the account and ticker and leaves the per-account daily PnL and all risk metrics as
  they were. A sell subtracts the quantity and adds \<open>pnl = notional * 0.001\<close> to
  \<open>daily_pnl[account]\<close> (created at 0 when absent) and to the daily and total PnL of the
  risk metrics, and changes no other metric.
\<close>

theorem update_position_records_fill:
  "trade_history (update_position rm now a t side q p) =
     trade_history rm @
       [\<lparr>t_timestamp = now, t_account_id = a, t_ticker = t, t_side = side,
         t_quantity = q, t_price = p, t_value = q * p, t_pnl = None\<rparr>] \<and>
   (side = ''buy'' \<longrightarrow>
      position_of (update_position rm now a t side q p) a t = position_of rm a t + q \<and>
      rm_daily_pnl (update_position rm now a t side q p) = rm_daily_pnl rm \<and>
      risk_metrics (update_position rm now a t side q p) = risk_metrics rm) \<and>
   (side = ''sell'' \<longrightarrow>
      position_of (update_position rm now a t side q p) a t = position_of rm a t - q \<and>
      rm_daily_pnl (update_position rm now a t side q p) =
        (rm_daily_pnl rm)(a \<mapsto> get_or (rm_daily_pnl rm a) 0 + q * p * (1 / 1000)) \<and>
      risk_metrics (update_position rm now a t side q p) =
        (risk_metrics rm)\<lparr>daily_pnl := daily_pnl (risk_metrics rm) + q * p * (1 / 1000),
                          total_pnl := total_pnl (risk_metrics rm) + q * p * (1 / 1000)\<rparr>)"
proof (intro conjI impI)
  show "trade_history (update_position rm now a t side q p) =
     trade_history rm @
       [\<lparr>t_timestamp = now, t_account_id = a, t_ticker = t, t_side = side,
         t_quantity = q, t_price = p, t_value = q * p, t_pnl = None\<rparr>]"
    by (rule trade_history_update_position)
next
  assume b: "side = ''buy''"
  show "position_of (update_position rm now a t side q p) a t = position_of rm a t + q"
    using b position_of_update_position_buy by simp
  have ns: "side \<noteq> ''sell''" using b by simp
  show "rm_daily_pnl (update_position rm now a t side q p) = rm_daily_pnl rm"
    using pnl_update_position_not_sell [OF ns] by simp
  show "risk_metrics (update_position rm now a t side q p) = risk_metrics rm"
    using pnl_update_position_not_sell [OF ns] by simp
next
  assume s: "side = ''sell''"
  have nb: "side \<noteq> ''buy''" using s by simp
  show "position_of (update_position rm now a t side q p) a t = position_of rm a t - q"
    using position_of_update_position_other [OF nb] by simp
  show "rm_daily_pnl (update_position rm now a t side q p) =
        (rm_daily_pnl rm)(a \<mapsto> get_or (rm_daily_pnl rm a) 0 + q * p * (1 / 1000))"
    using s pnl_update_position_sell by simp
  show "risk_metrics (update_position rm now a t side q p) =
        (risk_metrics rm)\<lparr>daily_pnl := daily_pnl (risk_metrics rm) + q * p * (1 / 1000),
                          total_pnl := total_pnl (risk_metrics rm) + q * p * (1 / 1000)\<rparr>"
    using s pnl_update_position_sell by simp
qed

theorem update_position_records_fill_witness:
  "length (trade_history
     (update_position (RiskManager_init default_risk_config) 7 (Some ''acc1'') ''BTCUSD'' ''buy'' 2 100)) = 1 \<and>
   position_of
     (update_position (RiskManager_init default_risk_config) 7 (Some ''acc1'') ''BTCUSD'' ''buy'' 2 100)
     (Some ''acc1'') ''BTCUSD'' = 2 \<and>
   total_pnl (risk_metrics
     (update_position (RiskManager_init default_risk_config) 7 (Some ''acc1'') ''BTCUSD'' ''buy'' 2 100)) = 0 \<and>
   position_of
     (update_position (RiskManager_init default_risk_config) 7 (Some ''acc1'') ''BTCUSD'' ''sell'' 2 100)
     (Some ''acc1'') ''BTCUSD'' = - 2 \<and>
   rm_daily_pnl
     (update_position (RiskManager_init default_risk_config) 7 (Some ''acc1'') ''BTCUSD'' ''sell'' 2 100)
     (Some ''acc1'') = Some (1 / 5) \<and>
   total_pnl (risk_metrics
     (update_position (RiskManager_init default_risk_config) 7 (Some ''acc1'') ''BTCUSD'' ''sell'' 2 100)) = 1 / 5"
  using update_position_records_fill
          [of "RiskManager_init default_risk_config" 7 "Some ''acc1''" "''BTCUSD''" "''buy''" 2 100]
        update_position_records_fill
          [of "RiskManager_init default_risk_config" 7 "Some ''acc1''" "''BTCUSD''" "''sell''" 2 100]
  by (simp add: RiskManager_init_def RiskMetrics_init_def position_of_def get_or_def)

subsection \<open>The emergency stop in the pre-trade check\<close>

text \<open>
  C2. While \<open>emergency_stop\<close> is set, \<open>check_pre_trade_risk\<close> never allows an intent; for
  every intent that carries ticker, side, quantity and price it returns \<open>False\<close> and
  leaves the manager unchanged, whatever the account, ticker, side, quantity and price are.
\<close>

theorem emergency_stop_denies_pre_trade:
  "emergency_stop rm \<Longrightarrow>
   fst (check_pre_trade_risk rm od) \<noteq> Inr True \<and>
   (has_required_keys od \<longrightarrow> check_pre_trade_risk rm od = (Inr False, rm))"
  by (auto simp add: check_pre_trade_risk_def has_required_keys_def Let_def split: option.splits)

theorem emergency_stop_denies_pre_trade_witness:
  "emergency_stop (emergency_stop_all (RiskManager_init default_risk_config)) \<and>
   has_required_keys
     \<lparr>od_account_id = None, od_ticker = Some ''BTCUSD'', od_side = Some ''buy'',
      od_quantity = Some 1, od_price = Some 100, od_type = Some ''limit'',
      od_strategy = Some ''GridTrading'', od_grid_level = Some (- 1)\<rparr> \<and>
   check_pre_trade_risk (emergency_stop_all (RiskManager_init default_risk_config))
     \<lparr>od_account_id = None, od_ticker = Some ''BTCUSD'', od_side = Some ''buy'',
      od_quantity = Some 1, od_price = Some 100, od_type = Some ''limit'',
      od_strategy = Some ''GridTrading'', od_grid_level = Some (- 1)\<rparr> =
     (Inr False, emergency_stop_all (RiskManager_init default_risk_config))"
  using emergency_stop_denies_pre_trade
          [of "emergency_stop_all (RiskManager_init default_risk_config)"
              "\<lparr>od_account_id = None, od_ticker = Some ''BTCUSD'', od_side = Some ''buy'',
                od_quantity = Some 1, od_price = Some 100, od_type = Some ''limit'',
                od_strategy = Some ''GridTrading'', od_grid_level = Some (- 1)\<rparr>"]
  by (simp add: emergency_stop_all_def has_required_keys_def)

subsection \<open>Metrics derived from the trade history\<close>

lemma equity_fold_no_pnl:
  "no_pnl_key ts \<Longrightarrow>
   fold (\<lambda>trade equity_curve. equity_curve @ [last equity_curve + get_or (t_pnl trade) 0])
        ts (ec @ [x])
     = ec @ x # replicate (length ts) x"
proof (induction ts arbitrary: ec)
  case Nil
  then show ?case by simp
next
  case (Cons t ts)
  have tn: "t_pnl t = None" and rest: "no_pnl_key ts"
    using Cons.prems by (simp_all add: no_pnl_key_def)
  have "fold (\<lambda>trade equity_curve. equity_curve @ [last equity_curve + get_or (t_pnl trade) 0])
          (t # ts) (ec @ [x])
      = fold (\<lambda>trade equity_curve. equity_curve @ [last equity_curve + get_or (t_pnl trade) 0])
          ts ((ec @ [x]) @ [x])"
    using tn by (simp add: get_or_def)
  also have "\<dots> = (ec @ [x]) @ x # replicate (length ts) x"
    using Cons.IH [OF rest, of "ec @ [x]"] by simp
  finally show ?case by (simp add: replicate_app_Cons_same)
qed

lemma equity_curve_no_pnl:
  "no_pnl_key (trade_history rm) \<Longrightarrow>
   calculate_equity_curve rm = replicate (Suc (length (trade_history rm))) 10000"
  using equity_fold_no_pnl [of "trade_history rm" "[]" 10000]
  by (simp add: calculate_equity_curve_def)

lemma funpow_max_same: "(max x ^^ n) (x::real) = x"
  by (induction n) simp_all

lemma filter_no_pnl:
  "no_pnl_key ts \<Longrightarrow> filter (\<lambda>t. get_or (t_pnl t) 0 > (0::real)) ts = []"
  by (induction ts) (simp_all add: no_pnl_key_def get_or_def)

lemma update_risk_metrics_flat:
  assumes "metrics_flat rm"
  shows "update_risk_metrics rm = Inr rm"
proof (cases "trade_history rm = []")
  case True
  then show ?thesis by (simp add: update_risk_metrics_def)
next
  case False
  have np: "no_pnl_key (trade_history rm)"
    using assms by (simp add: metrics_flat_def)
  have m: "(risk_metrics rm)\<lparr>win_rate := 0, current_drawdown := 0, max_drawdown := 0\<rparr>
             = risk_metrics rm"
    using assms by (simp add: metrics_flat_def)
  have "update_risk_metrics rm =
      Inr (rm\<lparr>risk_metrics :=
               (risk_metrics rm)\<lparr>win_rate := 0, current_drawdown := 0, max_drawdown := 0\<rparr>\<rparr>)"
    using False assms
    by (simp add: update_risk_metrics_def Let_def filter_no_pnl [OF np]
        equity_curve_no_pnl [OF np] funpow_max_same metrics_flat_def)
  then show ?thesis by (simp add: m)
qed

lemma update_position_flat:
  "metrics_flat rm \<Longrightarrow> metrics_flat (update_position rm now a t side q p)"
  by (simp add: metrics_flat_def no_pnl_key_def update_position_def update_pnl_def Let_def)

lemma run_calls_flat:
  "metrics_flat rm \<Longrightarrow>
   \<exists>rm'. run_calls rm cs = Inr rm' \<and> metrics_flat rm' \<and>
         max_drawdown_limit rm' = max_drawdown_limit rm"
proof (induction cs arbitrary: rm)
  case Nil
  then show ?case by simp
next
  case (Cons c cs)
  show ?case
  proof (cases c)
    case (UpdatePosition now a t side q p)
    have "max_drawdown_limit (update_position rm now a t side q p) = max_drawdown_limit rm"
      by (simp add: limits_update_position)
    with Cons.IH [OF update_position_flat [OF Cons.prems, of now a t side q p]] UpdatePosition
    show ?thesis by simp
  next
    case UpdateRiskMetrics
    with Cons.IH [OF Cons.prems] update_risk_metrics_flat [OF Cons.prems]
    show ?thesis by simp
  qed
qed

text \<open>
  The equity curve starts at 10000, so its peak is never 0 and the division in
  \<open>update_risk_metrics\<close> never raises.
\<close>

lemma fold_max_ge: "(x::real) \<le> fold max es x"
proof (induction es arbitrary: x)
  case Nil
  then show ?case by simp
next
  case (Cons e es)
  have "x \<le> max e x" by simp
  also have "\<dots> \<le> fold max es (max e x)" by (rule Cons.IH)
  finally show ?case by simp
qed

lemma equity_fold_hd:
  "\<exists>es. fold (\<lambda>trade equity_curve. equity_curve @ [last equity_curve + get_or (t_pnl trade) 0])
          ts (x # xs) = x # es"
  by (induction ts arbitrary: xs) auto

lemma update_risk_metrics_returns: "\<exists>rm'. update_risk_metrics rm = Inr rm'"
proof -
  obtain es where e: "calculate_equity_curve rm = 10000 # es"
    using equity_fold_hd [of "trade_history rm" 10000 "[]"]
    by (auto simp add: calculate_equity_curve_def)
  have "(10000::real) \<le> fold max es 10000" by (rule fold_max_ge)
  then have "fold max es 10000 \<noteq> (0::real)" by simp
  then show ?thesis
    by (simp add: update_risk_metrics_def e Let_def)
qed

lemma init_flat: "metrics_flat (RiskManager_init cfg)"
  by (simp add: metrics_flat_def RiskManager_init_def RiskMetrics_init_def no_pnl_key_def)

text \<open>
  C9, as stated, fails in its last part. With \<open>max_drawdown_limit = -0.01\<close> configured,
  one recorded sell and one \<open>update_risk_metrics\<close> leave the equity curve constant and
  \<open>current_drawdown\<close> at 0, and \<open>_check_drawdown_limit\<close> denies, setting \<open>is_risk_mode\<close>:
  the drawdown 0 computed from the recorded trades exceeds the limit.
\<close>

theorem negative_limit_denies_counterexample:
  "run_calls (RiskManager_init negative_limit_config)
     [UpdatePosition 1 (Some ''acc1'') ''BTCUSD'' ''sell'' 2 100, UpdateRiskMetrics]
     = Inr (update_position (RiskManager_init negative_limit_config)
              1 (Some ''acc1'') ''BTCUSD'' ''sell'' 2 100) \<and>
   calculate_equity_curve
     (update_position (RiskManager_init negative_limit_config)
        1 (Some ''acc1'') ''BTCUSD'' ''sell'' 2 100) = [10000, 10000] \<and>
   current_drawdown (risk_metrics
     (update_position (RiskManager_init negative_limit_config)
        1 (Some ''acc1'') ''BTCUSD'' ''sell'' 2 100)) = 0 \<and>
   check_drawdown_limit
     (update_position (RiskManager_init negative_limit_config)
        1 (Some ''acc1'') ''BTCUSD'' ''sell'' 2 100) (Some ''acc1'')
     = (False,
        (update_position (RiskManager_init negative_limit_config)
           1 (Some ''acc1'') ''BTCUSD'' ''sell'' 2 100)\<lparr>is_risk_mode := True\<rparr>)"
proof -
  let ?rm = "update_position (RiskManager_init negative_limit_config)
               1 (Some ''acc1'') ''BTCUSD'' ''sell'' 2 100"
  have f: "metrics_flat ?rm"
    by (rule update_position_flat [OF init_flat])
  have r: "update_risk_metrics ?rm = Inr ?rm"
    by (rule update_risk_metrics_flat [OF f])
  have np: "no_pnl_key (trade_history ?rm)"
    using f by (simp add: metrics_flat_def)
  have h: "length (trade_history ?rm) = 1"
    by (simp add: trade_history_update_position RiskManager_init_def)
  have e: "calculate_equity_curve ?rm = [10000, 10000]"
    using equity_curve_no_pnl [OF np] h by (simp add: numeral_eq_Suc)
  have d: "current_drawdown (risk_metrics ?rm) = 0"
    using f by (simp add: metrics_flat_def)
  have l: "max_drawdown_limit ?rm = - (1 / 100)"
    by (simp add: limits_update_position RiskManager_init_def negative_limit_config_def
        get_or_def)
  have c: "check_drawdown_limit ?rm (Some ''acc1'') = (False, ?rm\<lparr>is_risk_mode := True\<rparr>)"
    using d l by (simp add: check_drawdown_limit_def)
  show ?thesis
    using r e d c by simp
qed

text \<open>
  C9, amended. \<open>update_position\<close> never writes the key \<open>pnl\<close> into a trade record. Hence
  every sequence of \<open>update_position\<close> and \<open>update_risk_metrics\<close> calls on a fresh manager
  runs without an exception and ends in a state where no trade has the key, \<open>win_rate\<close> is
  0, the equity curve is constantly the starting equity 10000, and \<open>current_drawdown\<close> and
  \<open>max_drawdown\<close> are 0. The verdict of \<open>_check_drawdown_limit\<close> is then the one it gives
  before any trade was recorded: it passes exactly when the configured
  \<open>max_drawdown_limit\<close> is not negative, so for every limit that is not negative it never
  denies.
\<close>

theorem recorded_trades_keep_metrics_flat:
  "\<exists>rm. run_calls (RiskManager_init cfg) calls = Inr rm \<and>
     no_pnl_key (trade_history rm) \<and>
     win_rate (risk_metrics rm) = 0 \<and>
     calculate_equity_curve rm = replicate (Suc (length (trade_history rm))) 10000 \<and>
     current_drawdown (risk_metrics rm) = 0 \<and>
     max_drawdown (risk_metrics rm) = 0 \<and>
     max_drawdown_limit rm = max_drawdown_limit (RiskManager_init cfg) \<and>
     fst (check_drawdown_limit rm a) = fst (check_drawdown_limit (RiskManager_init cfg) a) \<and>
     fst (check_drawdown_limit rm a) = (0 \<le> max_drawdown_limit rm) \<and>
     (0 \<le> max_drawdown_limit rm \<longrightarrow> check_drawdown_limit rm a = (True, rm))"
proof -
  obtain rm where r: "run_calls (RiskManager_init cfg) calls = Inr rm"
    and f: "metrics_flat rm"
    and l: "max_drawdown_limit rm = max_drawdown_limit (RiskManager_init cfg)"
    using run_calls_flat [OF init_flat, of cfg calls] by blast
  have np: "no_pnl_key (trade_history rm)"
    using f by (simp add: metrics_flat_def)
  have "calculate_equity_curve rm = replicate (Suc (length (trade_history rm))) 10000"
    by (rule equity_curve_no_pnl [OF np])
  moreover have "0 \<le> max_drawdown_limit rm \<longrightarrow> check_drawdown_limit rm a = (True, rm)"
    using f by (simp add: check_drawdown_limit_def metrics_flat_def)
  moreover have "fst (check_drawdown_limit rm a) = (0 \<le> max_drawdown_limit rm)"
    using f by (auto simp add: check_drawdown_limit_def metrics_flat_def)
  moreover have "fst (check_drawdown_limit rm a) = fst (check_drawdown_limit (RiskManager_init cfg) a)"
    using f l init_flat [of cfg] by (simp add: check_drawdown_limit_def metrics_flat_def)
  ultimately show ?thesis
    using r f l by (auto simp add: metrics_flat_def)
qed

theorem recorded_trades_keep_metrics_flat_witness:
  "\<exists>rm. run_calls (RiskManager_init default_risk_config)
          [UpdatePosition 1 (Some ''acc1'') ''BTCUSD'' ''sell'' 2 100, UpdateRiskMetrics,
           UpdatePosition 2 None ''BTCUSD'' ''buy'' 3 101, UpdateRiskMetrics] = Inr rm \<and>
        win_rate (risk_metrics rm) = 0 \<and>
        current_drawdown (risk_metrics rm) = 0 \<and>
        0 \<le> max_drawdown_limit rm \<and>
        check_drawdown_limit rm (Some ''acc1'') = (True, rm)"
  using recorded_trades_keep_metrics_flat
          [of default_risk_config
              "[UpdatePosition 1 (Some ''acc1'') ''BTCUSD'' ''sell'' 2 100, UpdateRiskMetrics,
                UpdatePosition 2 None ''BTCUSD'' ''buy'' 3 101, UpdateRiskMetrics]"
              "Some ''acc1''"]
  by (auto simp add: RiskManager_init_def default_risk_config_def get_or_def)

section \<open>Properties of the account manager\<close>

lemma update_fresh: "k \<notin> fst ` set al \<Longrightarrow> AList.update k v al = al @ [(k, v)]"
  by (induction al) auto

lemma set_update_cases: "x \<in> set (AList.update k v al) \<Longrightarrow> x = (k, v) \<or> x \<in> set al"
  by (induction al) (auto split: if_splits)

lemma keyed_update:
  assumes "keyed_by_id accs"
  shows "keyed_by_id (AList.update (account_id a) a accs)"
proof -
  have "distinct (map fst (AList.update (account_id a) a accs))"
    using assms by (simp add: keyed_by_id_def distinct_update)
  moreover have "list_all (\<lambda>p. account_id (snd p) = fst p) (AList.update (account_id a) a accs)"
    unfolding list_all_iff
  proof
    fix x assume "x \<in> set (AList.update (account_id a) a accs)"
    then have "x = (account_id a, a) \<or> x \<in> set accs" by (rule set_update_cases)
    then show "account_id (snd x) = fst x"
      using assms by (auto simp add: keyed_by_id_def list_all_iff)
  qed
  ultimately show ?thesis by (simp add: keyed_by_id_def)
qed

lemma initialize_accounts_keyed:
  "keyed_by_id accs \<Longrightarrow> initialize_accounts cs accs = Inr accs' \<Longrightarrow> keyed_by_id accs'"
proof (induction cs arbitrary: accs)
  case Nil
  then show ?case by simp
next
  case (Cons c cs)
  show ?case
  proof (cases "Account_of_config c")
    case (Inl e)
    with Cons.prems show ?thesis by simp
  next
    case (Inr a)
    with Cons.prems have "initialize_accounts cs (AList.update (account_id a) a accs) = Inr accs'"
      by simp
    with Cons.IH [OF keyed_update [OF Cons.prems(1)]] show ?thesis by blast
  qed
qed

lemma init_keyed:
  assumes "AccountManager_init cs = Inr am"
  shows "keyed_by_id (accounts am)"
proof -
  have k: "keyed_by_id []" by (simp add: keyed_by_id_def)
  from assms obtain accs where i: "initialize_accounts cs [] = Inr accs" and a: "accounts am = accs"
    by (auto simp add: AccountManager_init_def split: sum.splits)
  show ?thesis using initialize_accounts_keyed [OF k i] a by simp
qed

lemma active_distinct:
  assumes "keyed_by_id (accounts am)"
  shows "distinct (map account_id (get_active_accounts am))"
proof -
  have e: "map (\<lambda>p. account_id (snd p)) (accounts am) = map fst (accounts am)"
    using assms by (intro map_cong) (auto simp add: keyed_by_id_def list_all_iff)
  have "distinct (map fst (accounts am))"
    using assms by (simp add: keyed_by_id_def)
  then have "distinct (map (\<lambda>p. account_id (snd p)) (accounts am))"
    by (simp only: e)
  then have "distinct (map account_id (map snd (accounts am)))"
    by (simp add: comp_def)
  then show ?thesis
    unfolding get_active_accounts_def by (rule distinct_map_filter)
qed

lemma fold_update_distinct:
  "distinct (map f xs) \<Longrightarrow> set (map f xs) \<inter> fst ` set al = {} \<Longrightarrow>
   fold (\<lambda>x allocation. AList.update (f x) (g x) allocation) xs al = al @ map (\<lambda>x. (f x, g x)) xs"
proof (induction xs arbitrary: al)
  case Nil
  then show ?case by simp
next
  case (Cons x xs)
  have fr: "f x \<notin> fst ` set al" using Cons.prems by auto
  have "set (map f xs) \<inter> fst ` set (al @ [(f x, g x)]) = {}"
    using Cons.prems by auto
  with Cons.IH [of "al @ [(f x, g x)]"] Cons.prems fr show ?case
    by (simp add: update_fresh)
qed

lemma sum_list_const: "sum_list (map (\<lambda>x. c) xs) = real (length xs) * (c::real)"
  by (induction xs) (simp_all add: algebra_simps)


lemma AccountManager_init_empty_account:
  "AccountManager_init [empty_account_config] = Inr \<lparr>accounts = [(''acc1'', empty_account)]\<rparr>"
  by (simp add: AccountManager_init_def Account_of_config_def empty_account_config_def
      empty_account_def get_or_def)

text \<open>
  C5, as stated, fails: with balances summing to 0 and a prospective position value of 0
  (no position, a delta of 0), under the default limits, \<open>check_risk_limits\<close> still
  returns \<open>False\<close>, because the ratio is 1 whatever the position value is.
\<close>

theorem zero_value_zero_position_counterexample:
  "get_account \<lparr>accounts = [(''acc1'', empty_account)]\<rparr> ''acc1'' = Some empty_account \<and>
   sum_list (map snd (balance empty_account)) = 0 \<and>
   \<bar>get_or (positions empty_account ''BTCUSD'') 0 + 0\<bar> = 0 \<and>
   check_risk_limits \<lparr>accounts = [(''acc1'', empty_account)]\<rparr> ''acc1'' 0 ''BTCUSD'' = False"
  by (simp add: check_risk_limits_def get_account_def empty_account_def get_or_def)

text \<open>
  C5, amended. When the balances of a known account do not sum to a positive value (in
  particular when they sum to 0), the risk ratio is 1 whatever the prospective position
  value is, so \<open>check_risk_limits\<close> passes exactly when the prospective absolute position
  is within \<open>max_position_size\<close> and \<open>risk_limit\<close> is at least 1; for every
  \<open>risk_limit\<close> below 1 it fails, also when the position value is 0.
\<close>

theorem check_risk_limits_no_account_value:
  "get_account am aid = Some account \<Longrightarrow> sum_list (map snd (balance account)) \<le> 0 \<Longrightarrow>
   check_risk_limits am aid delta ticker =
     (\<bar>get_or (positions account ticker) 0 + delta\<bar> \<le> max_position_size account \<and>
      1 \<le> risk_limit account)"
  by (auto simp add: check_risk_limits_def Let_def)

theorem check_risk_limits_no_account_value_witness:
  "get_account \<lparr>accounts = [(''acc1'', empty_account\<lparr>risk_limit := 3 / 2\<rparr>)]\<rparr> ''acc1''
     = Some (empty_account\<lparr>risk_limit := 3 / 2\<rparr>) \<and>
   sum_list (map snd (balance (empty_account\<lparr>risk_limit := 3 / 2\<rparr>))) \<le> 0 \<and>
   check_risk_limits \<lparr>accounts = [(''acc1'', empty_account\<lparr>risk_limit := 3 / 2\<rparr>)]\<rparr>
     ''acc1'' 5 ''BTCUSD'' = True"
  using check_risk_limits_no_account_value
          [of "\<lparr>accounts = [(''acc1'', empty_account\<lparr>risk_limit := 3 / 2\<rparr>)]\<rparr>" "''acc1''"
              "empty_account\<lparr>risk_limit := 3 / 2\<rparr>" 5 "''BTCUSD''"]
  by (simp add: get_account_def empty_account_def get_or_def)

text \<open>
  C7. For a manager whose registry is keyed by the accounts' ids, as the constructor
  builds it (\<open>init_keyed\<close>), \<open>allocate_funds\<close> with strategy \<open>equal\<close> returns one entry
  per active account, in order, each with the amount \<open>total / N\<close>, where \<open>N\<close> is the
  number of active accounts; for \<open>N > 0\<close> the amounts sum to the total (over the reals).
  With no active account it returns the empty mapping, for every strategy, and raises
  nothing.
\<close>

theorem allocate_funds_equal:
  assumes "keyed_by_id (accounts am)"
  shows "\<exists>allocation.
     allocate_funds am amount ''equal'' = Inr allocation \<and>
     allocation = map (\<lambda>a. (account_id a, amount / real (length (get_active_accounts am))))
                      (get_active_accounts am) \<and>
     (get_active_accounts am \<noteq> [] \<longrightarrow> sum_list (map snd allocation) = amount) \<and>
     (get_active_accounts am = [] \<longrightarrow> allocate_funds am amount strategy = Inr [])"
proof -
  have d: "distinct (map account_id (get_active_accounts am))"
    using active_distinct [OF assms] .
  have "fold (\<lambda>account allocation.
                AList.update (account_id account)
                  (amount / real (length (get_active_accounts am))) allocation)
          (get_active_accounts am) []
        = [] @ map (\<lambda>a. (account_id a, amount / real (length (get_active_accounts am))))
                   (get_active_accounts am)"
    using d by (intro fold_update_distinct) simp_all
  then have a: "allocate_funds am amount ''equal'' =
      Inr (map (\<lambda>a. (account_id a, amount / real (length (get_active_accounts am))))
               (get_active_accounts am))"
    by (simp add: allocate_funds_def Let_def)
  have s: "get_active_accounts am \<noteq> [] \<Longrightarrow>
    sum_list (map snd (map (\<lambda>a. (account_id a, amount / real (length (get_active_accounts am))))
                           (get_active_accounts am))) = amount"
    by (simp add: comp_def sum_list_const)
  have e: "get_active_accounts am = [] \<Longrightarrow> allocate_funds am amount strategy = Inr []"
    by (simp add: allocate_funds_def)
  show ?thesis using a s e by blast
qed

theorem allocate_funds_equal_witness:
  "keyed_by_id (accounts three_accounts) \<and>
   length (get_active_accounts three_accounts) = 2 \<and>
   allocate_funds three_accounts 100 ''equal'' = Inr [(''acc1'', 50), (''acc3'', 50)] \<and>
   sum_list (map snd [(''acc1'', 50 :: real), (''acc3'', 50)]) = 100 \<and>
   keyed_by_id (accounts \<lparr>accounts = []\<rparr>) \<and>
   allocate_funds \<lparr>accounts = []\<rparr> 100 ''risk_weighted'' = Inr []"
proof -
  have k3: "keyed_by_id (accounts three_accounts)"
    by (simp add: keyed_by_id_def three_accounts_def empty_account_def)
  have k0: "keyed_by_id (accounts \<lparr>accounts = []\<rparr>)"
    by (simp add: keyed_by_id_def)
  show ?thesis
    using k3 k0 allocate_funds_equal [OF k3, of 100 "''equal''"] allocate_funds_equal [OF k0, of 100 "''risk_weighted''"]
    by (simp add: get_active_accounts_def three_accounts_def empty_account_def)
qed

section \<open>Properties of the grid strategy\<close>

lemma py_range_ten: "py_range (- 5) 6 = [-5, -4, -3, -2, -1, 0, 1, 2, 3, 4, 5]"
  by code_simp

lemma generate_grid_orders_ten:
  assumes "grid_count g = 10" "grid_spacing g = 5 / 1000" "center_price g = Some 100"
  shows "generate_grid_orders g t 100 =
    Inr [grid_order (name g) t ''buy'' (base_volume g) (- 5) (975 / 10),
         grid_order (name g) t ''buy'' (base_volume g) (- 4) 98,
         grid_order (name g) t ''buy'' (base_volume g) (- 3) (985 / 10),
         grid_order (name g) t ''buy'' (base_volume g) (- 2) 99,
         grid_order (name g) t ''buy'' (base_volume g) (- 1) (995 / 10),
         grid_order (name g) t ''sell'' (base_volume g) 1 (1005 / 10),
         grid_order (name g) t ''sell'' (base_volume g) 2 101,
         grid_order (name g) t ''sell'' (base_volume g) 3 (1015 / 10),
         grid_order (name g) t ''sell'' (base_volume g) 4 102,
         grid_order (name g) t ''sell'' (base_volume g) 5 (1025 / 10)]"
  by (simp add: generate_grid_orders_def py_range_ten grid_level_orders_def grid_order_def Let_def assms)


text \<open>
  C8. A running GridTrading strategy with \<open>grid_count = 10\<close>, \<open>grid_spacing = 0.005\<close> and
  center price 100 (set, or unset and taken from the first market price), on a snapshot
  where its one ticker trades at 100, returns exactly ten intents for the ticker: five
  buys at the levels \<open>-5..-1\<close>, priced below 100, then five sells at the levels \<open>1..5\<close>,
  priced above 100, and none at level 0.
\<close>

theorem grid_trading_ten_orders:
  assumes "is_running g" and "tickers g = [t]"
    and "market_data t = Some entry" and "md_price entry = 100"
    and "grid_count g = 10" and "grid_spacing g = 5 / 1000"
    and "center_price g = None \<or> center_price g = Some 100"
  shows "\<exists>orders. fst (execute g market_data) = Inr orders \<and>
    orders =
      [grid_order (name g) t ''buy'' (base_volume g) (- 5) (975 / 10),
       grid_order (name g) t ''buy'' (base_volume g) (- 4) 98,
       grid_order (name g) t ''buy'' (base_volume g) (- 3) (985 / 10),
       grid_order (name g) t ''buy'' (base_volume g) (- 2) 99,
       grid_order (name g) t ''buy'' (base_volume g) (- 1) (995 / 10),
       grid_order (name g) t ''sell'' (base_volume g) 1 (1005 / 10),
       grid_order (name g) t ''sell'' (base_volume g) 2 101,
       grid_order (name g) t ''sell'' (base_volume g) 3 (1015 / 10),
       grid_order (name g) t ''sell'' (base_volume g) 4 102,
       grid_order (name g) t ''sell'' (base_volume g) 5 (1025 / 10)] \<and>
    length orders = 10 \<and>
    map od_side orders = replicate 5 (Some ''buy'') @ replicate 5 (Some ''sell'') \<and>
    map od_grid_level orders = map Some [- 5, - 4, - 3, - 2, - 1, 1, 2, 3, 4, 5] \<and>
    list_all (\<lambda>od. od_ticker od = Some t) orders"
proof -
  define g1 where "g1 = (if center_price g = None then g\<lparr>center_price := Some 100\<rparr> else g)"
  have c: "center_price g1 = Some 100"
    using assms(7) by (auto simp add: g1_def)
  have f: "grid_count g1 = 10" "grid_spacing g1 = 5 / 1000"
    "name g1 = name g" "base_volume g1 = base_volume g"
    using assms by (auto simp add: g1_def)
  have "execute g market_data =
      (case generate_grid_orders g1 t 100 of Inl e \<Rightarrow> (Inl e, g1) | Inr os \<Rightarrow> (Inr os, g1))"
    using assms(1-4) by (simp add: execute_def g1_def Let_def split: sum.splits)
  then have "fst (execute g market_data) =
    Inr [grid_order (name g) t ''buy'' (base_volume g) (- 5) (975 / 10),
         grid_order (name g) t ''buy'' (base_volume g) (- 4) 98,
         grid_order (name g) t ''buy'' (base_volume g) (- 3) (985 / 10),
         grid_order (name g) t ''buy'' (base_volume g) (- 2) 99,
         grid_order (name g) t ''buy'' (base_volume g) (- 1) (995 / 10),
         grid_order (name g) t ''sell'' (base_volume g) 1 (1005 / 10),
         grid_order (name g) t ''sell'' (base_volume g) 2 101,
         grid_order (name g) t ''sell'' (base_volume g) 3 (1015 / 10),
         grid_order (name g) t ''sell'' (base_volume g) 4 102,
         grid_order (name g) t ''sell'' (base_volume g) 5 (1025 / 10)]"
    using generate_grid_orders_ten [OF f(1) f(2) c, of t] f(3,4) by simp
  then show ?thesis
    by (simp add: grid_order_def numeral_eq_Suc)
qed

text \<open>An instance: the strategy built from a configuration that names one ticker only.\<close>

theorem grid_trading_ten_orders_witness:
  "is_running (start (GridTradingStrategy_init grid_example_config)) \<and>
   grid_count (start (GridTradingStrategy_init grid_example_config)) = 10 \<and>
   grid_spacing (start (GridTradingStrategy_init grid_example_config)) = 5 / 1000 \<and>
   center_price (start (GridTradingStrategy_init grid_example_config)) = None \<and>
   (\<exists>orders.
      fst (execute (start (GridTradingStrategy_init grid_example_config))
             [''BTCUSD'' \<mapsto> \<lparr>md_price = 100, md_volume = 0, md_timestamp = 0\<rparr>]) = Inr orders \<and>
      length orders = 10 \<and>
      map od_price orders =
        map Some [975 / 10, 98, 985 / 10, 99, 995 / 10, 1005 / 10, 101, 1015 / 10, 102, 1025 / 10])"
  using grid_trading_ten_orders
          [of "start (GridTradingStrategy_init grid_example_config)" "''BTCUSD''"
              "[''BTCUSD'' \<mapsto> \<lparr>md_price = 100, md_volume = 0, md_timestamp = 0\<rparr>]"
              "\<lparr>md_price = 100, md_volume = 0, md_timestamp = 0\<rparr>"]
  by (simp add: start_def GridTradingStrategy_init_def grid_example_config_def get_or_def
      grid_order_def)

section \<open>Properties of the orchestrator\<close>

lemma status_update_one:
  "status (fst (update_one_order sr now order rm)) = next_status (status order)"
  by (simp add: update_one_order_def next_status_def Let_def split: sum.splits)

lemma map_status_update_orders:
  "map status (fst (update_orders sr now os rm)) = map next_status (map status os)"
proof (induction os arbitrary: rm)
  case Nil
  then show ?case by simp
next
  case (Cons order rest)
  obtain o1 rm1 where u: "update_one_order sr now order rm = (o1, rm1)" by force
  obtain r1 rm2 where r: "update_orders sr now rest rm1 = (r1, rm2)" by force
  have "status o1 = next_status (status order)"
    using status_update_one [of sr now order rm] u by simp
  moreover have "map status r1 = map next_status (map status rest)"
    using Cons.IH [of rm1] r by simp
  ultimately show ?case using u r by simp
qed

lemma statuses_reconcile:
  "map status (orders (update_order_status sr now s)) = map next_status (map status (orders s))"
  using map_status_update_orders [of sr now "orders s" "risk_manager s"]
  by (auto simp add: update_order_status_def split: prod.splits)

lemma statuses_submit:
  "map status (orders (submit_order sr now od s)) = map status (orders s) \<or>
   map status (orders (submit_order sr now od s)) = map status (orders s) @ [''submitted''] \<or>
   map status (orders (submit_order sr now od s)) = map status (orders s) @ [''failed'']"
  by (simp add: submit_order_def Let_def split: sum.splits option.splits)

lemma status_at_reconcile:
  "status_at (update_order_status sr now s) i = map_option next_status (status_at s i)"
proof -
  have l: "length (orders (update_order_status sr now s)) = length (orders s)"
    using arg_cong [OF statuses_reconcile [of sr now s], of length] by simp
  show ?thesis
  proof (cases "i < length (orders s)")
    case True
    have "map status (orders (update_order_status sr now s)) ! i
            = map next_status (map status (orders s)) ! i"
      by (simp only: statuses_reconcile)
    then show ?thesis using True l by (simp add: status_at_def)
  next
    case False
    then show ?thesis using l by (simp add: status_at_def)
  qed
qed

lemma status_at_submit_old:
  "i < length (orders s) \<Longrightarrow> status_at (submit_order sr now od s) i = status_at s i"
  by (simp add: submit_order_def status_at_def Let_def nth_append split: sum.splits option.splits)

lemma status_at_submit_new:
  "\<not> i < length (orders s) \<Longrightarrow>
   status_at (submit_order sr now od s) i = None \<or>
   status_at (submit_order sr now od s) i = Some ''submitted'' \<or>
   status_at (submit_order sr now od s) i = Some ''failed''"
  by (simp add: submit_order_def status_at_def Let_def nth_append split: sum.splits option.splits)

lemma terminal_kept:
  assumes "status_at s i = Some st" and "terminal st"
  shows "status_at (engine_step sr c s) i = Some st"
proof (cases c)
  case (Submit now od)
  have "i < length (orders s)" using assms(1) by (simp add: status_at_def split: if_splits)
  then show ?thesis using Submit assms(1) by (simp add: status_at_submit_old)
next
  case (Reconcile now)
  have "next_status st = st" using assms(2) by (auto simp add: terminal_def next_status_def)
  then show ?thesis using Reconcile assms(1) by (simp add: status_at_reconcile)
qed

lemma filled_from_submitted:
  assumes "status_at (engine_step sr c s) i = Some ''filled''"
  shows "status_at s i = Some ''submitted'' \<or> status_at s i = Some ''filled''"
proof (cases c)
  case (Submit now od)
  show ?thesis
  proof (cases "i < length (orders s)")
    case True
    then show ?thesis using Submit assms by (simp add: status_at_submit_old)
  next
    case False
    then show ?thesis using Submit assms status_at_submit_new [OF False, of sr now od] by auto
  qed
next
  case (Reconcile now)
  then obtain st where "status_at s i = Some st" and "next_status st = ''filled''"
    using assms by (auto simp add: status_at_reconcile)
  then show ?thesis by (auto simp add: next_status_def split: if_splits)
qed

lemma run_snoc: "run sr (cs @ [c]) s = engine_step sr c (run sr cs s)"
  by (simp add: run_def)

lemma filled_was_submitted:
  "status_at s i = None \<Longrightarrow> status_at (run sr calls s) i = Some ''filled'' \<Longrightarrow>
   \<exists>k\<le>length calls. status_at (run sr (take k calls) s) i = Some ''submitted''"
proof (induction calls rule: rev_induct)
  case Nil
  then show ?case by (simp add: run_def)
next
  case (snoc c cs)
  have "status_at (engine_step sr c (run sr cs s)) i = Some ''filled''"
    using snoc.prems(2) by (simp add: run_snoc)
  then consider "status_at (run sr cs s) i = Some ''submitted''"
    | "status_at (run sr cs s) i = Some ''filled''"
    using filled_from_submitted by blast
  then show ?case
  proof cases
    case 1
    then have "status_at (run sr (take (length cs) (cs @ [c])) s) i = Some ''submitted''" by simp
    then show ?thesis by (intro exI [of _ "length cs"]) simp
  next
    case 2
    then obtain k where k: "k \<le> length cs" "status_at (run sr (take k cs) s) i = Some ''submitted''"
      using snoc.IH [OF snoc.prems(1)] by blast
    then have "status_at (run sr (take k (cs @ [c])) s) i = Some ''submitted''" by simp
    then show ?thesis using k(1) by (intro exI [of _ k]) simp
  qed
qed


lemma status_at_step_new:
  assumes "status_at s i = None"
  shows "status_at (engine_step sr c s) i = None \<or>
         status_at (engine_step sr c s) i = Some ''submitted'' \<or>
         status_at (engine_step sr c s) i = Some ''failed''"
proof (cases c)
  case (Submit now od)
  have "\<not> i < length (orders s)"
    using assms by (simp add: status_at_def split: if_splits)
  then show ?thesis using Submit status_at_submit_new [of i s sr now od] by simp
next
  case (Reconcile now)
  then show ?thesis using assms by (simp add: status_at_reconcile)
qed

lemma terminal_kept_run:
  "status_at s i = Some st \<Longrightarrow> terminal st \<Longrightarrow> status_at (run sr calls s) i = Some st"
proof (induction calls rule: rev_induct)
  case Nil
  then show ?case by (simp add: run_def)
next
  case (snoc c cs)
  then show ?case by (simp add: run_snoc terminal_kept)
qed

text \<open>
  C4. The lifecycle of an order is forward-only. For every state, every step of the
  orchestrator (a submission or a reconciliation) and every run of steps: an order that
  is filled or failed keeps that status; an order that is filled after a step was
  submitted or already filled before it; an order that appears in the registry appears
  submitted, or failed when the notification of its submission raised; and an order that
  was not in the registry at the start of a run and is filled at its end was submitted
  after some prefix of the run.
\<close>

theorem order_lifecycle_forward_only:
  "(status_at s i = Some st \<and> terminal st \<longrightarrow>
      status_at (engine_step sr c s) i = Some st \<and> status_at (run sr calls s) i = Some st) \<and>
   (status_at (engine_step sr c s) i = Some ''filled'' \<longrightarrow>
      status_at s i = Some ''submitted'' \<or> status_at s i = Some ''filled'') \<and>
   (status_at s i = None \<longrightarrow>
      status_at (engine_step sr c s) i = None \<or>
      status_at (engine_step sr c s) i = Some ''submitted'' \<or>
      status_at (engine_step sr c s) i = Some ''failed'') \<and>
   (status_at s i = None \<and> status_at (run sr calls s) i = Some ''filled'' \<longrightarrow>
      (\<exists>k\<le>length calls. status_at (run sr (take k calls) s) i = Some ''submitted''))"
proof (intro conjI impI)
  assume a: "status_at s i = Some st \<and> terminal st"
  show "status_at (engine_step sr c s) i = Some st"
    using a terminal_kept by blast
  show "status_at (run sr calls s) i = Some st"
    using a terminal_kept_run by blast
next
  assume "status_at (engine_step sr c s) i = Some ''filled''"
  then show "status_at s i = Some ''submitted'' \<or> status_at s i = Some ''filled''"
    by (rule filled_from_submitted)
next
  assume "status_at s i = None"
  then show "status_at (engine_step sr c s) i = None \<or>
      status_at (engine_step sr c s) i = Some ''submitted'' \<or>
      status_at (engine_step sr c s) i = Some ''failed''"
    by (rule status_at_step_new)
next
  assume "status_at s i = None \<and> status_at (run sr calls s) i = Some ''filled''"
  then show "\<exists>k\<le>length calls. status_at (run sr (take k calls) s) i = Some ''submitted''"
    using filled_was_submitted by blast
qed

lemma TradingSystem_init_example:
  "TradingSystem_init [funded_account_config] default_risk_config = Inr example_system"
  by (simp add: TradingSystem_init_def AccountManager_init_def Account_of_config_def
      funded_account_config_def funded_account_def example_system_def get_active_accounts_def
      get_or_def)

lemma statuses_example_run:
  "map status (orders (run no_raise example_calls example_system)) = [''filled'']"
  by (simp add: example_calls_def example_system_def example_intent_def submit_order_def
      Order_init_def check_risk_limits_def get_account_def funded_account_def get_or_def
      notify_order_update_def no_raise_def run_def update_order_status_def
      update_one_order_def Let_def)

lemma statuses_example_submit:
  "map status (orders (run no_raise (take 1 example_calls) example_system)) = [''submitted'']"
  by (simp add: example_calls_def example_system_def example_intent_def submit_order_def
      Order_init_def check_risk_limits_def get_account_def funded_account_def get_or_def
      notify_order_update_def no_raise_def run_def Let_def)

theorem order_lifecycle_forward_only_witness:
  "status_at example_system 0 = None \<and>
   status_at (run no_raise example_calls example_system) 0 = Some ''filled'' \<and>
   terminal ''filled'' \<and>
   status_at (engine_step no_raise (Reconcile 3) (run no_raise example_calls example_system)) 0
     = Some ''filled'' \<and>
   status_at (engine_step no_raise (Submit 3 (example_intent ''sell'' 1))
                (run no_raise example_calls example_system)) 0 = Some ''filled'' \<and>
   status_at (run no_raise (take 1 example_calls) example_system) 0 = Some ''submitted'' \<and>
   (\<exists>k\<le>length example_calls.
      status_at (run no_raise (take k example_calls) example_system) 0 = Some ''submitted'')"
proof -
  have h0: "status_at example_system 0 = None"
    by (simp add: status_at_def example_system_def)
  have l: "length (orders (run no_raise example_calls example_system)) = 1"
    using arg_cong [OF statuses_example_run, of length] by simp
  have "map status (orders (run no_raise example_calls example_system)) ! 0 = ''filled''"
    by (simp only: statuses_example_run nth_Cons_0)
  then have h1: "status_at (run no_raise example_calls example_system) 0 = Some ''filled''"
    using l by (simp add: status_at_def)
  have l1: "length (orders (run no_raise (take 1 example_calls) example_system)) = 1"
    using arg_cong [OF statuses_example_submit, of length] by simp
  have "map status (orders (run no_raise (take 1 example_calls) example_system)) ! 0
          = ''submitted''"
    by (simp only: statuses_example_submit nth_Cons_0)
  then have h2: "status_at (run no_raise (take 1 example_calls) example_system) 0
                   = Some ''submitted''"
    using l1 by (simp add: status_at_def)
  have t: "terminal ''filled''"
    by (simp add: terminal_def)
  show ?thesis
    using h0 h1 h2 t
      order_lifecycle_forward_only
        [of "run no_raise example_calls example_system" 0 "''filled''" no_raise
            "Reconcile 3" "[]"]
      order_lifecycle_forward_only
        [of "run no_raise example_calls example_system" 0 "''filled''" no_raise
            "Submit 3 (example_intent ''sell'' 1)" "[]"]
      order_lifecycle_forward_only
        [of example_system 0 "''filled''" no_raise "Reconcile 3" example_calls]
    by simp
qed

subsection \<open>Submission and the emergency stop\<close>

lemma submit_order_ignores_risk_manager:
  "orders (submit_order sr now od (s\<lparr>risk_manager := rm\<rparr>)) = orders (submit_order sr now od s)"
  by (simp add: submit_order_def notify_order_update_def Let_def split: sum.splits option.splits)

text \<open>
  C1, evaluated on the code. After \<open>emergency_stop_all\<close> the flag is set and
  \<open>check_pre_trade_risk\<close> denies the intent, yet \<open>_submit_order\<close>, which consults only
  \<open>check_risk_limits\<close> of the account manager, registers the order as submitted, and the
  next reconciliation fills it.
\<close>

theorem submit_order_under_emergency_stop:
  "emergency_stop (risk_manager stopped_system) \<and>
   check_pre_trade_risk (risk_manager stopped_system) (example_intent ''buy'' 1)
     = (Inr False, risk_manager stopped_system) \<and>
   map status (orders stopped_system) = [] \<and>
   map status (orders (submit_order no_raise 1 (example_intent ''buy'' 1) stopped_system))
     = [''submitted''] \<and>
   emergency_stop
     (risk_manager (submit_order no_raise 1 (example_intent ''buy'' 1) stopped_system)) \<and>
   map status (orders (run no_raise example_calls stopped_system)) = [''filled'']"
  by (simp add: stopped_system_def example_system_def emergency_stop_all_def
      check_pre_trade_risk_def example_intent_def example_calls_def submit_order_def
      Order_init_def check_risk_limits_def get_account_def funded_account_def get_or_def
      notify_order_update_def no_raise_def run_def update_order_status_def
      update_one_order_def risk_callback_def limits_update_position Let_def)

subsection \<open>Gated fills and the position limit\<close>

text \<open>
  C3, evaluated on the code. Two sell intents of 600 for an account with
  \<open>max_position_size = 1000\<close> both pass \<open>check_risk_limits\<close> (which is given the unsigned
  quantity and reads the account's own \<open>positions\<close>, which no fill updates), both are
  submitted and filled, and the fills, recorded by \<open>update_position\<close> with their sign,
  bring the position to \<open>-1200\<close>.
\<close>

theorem gated_fills_exceed_max_position:
  "get_account (account_manager example_system) ''acc1'' = Some funded_account \<and>
   max_position_size funded_account = 1000 \<and>
   check_risk_limits (account_manager example_system) ''acc1'' 600 ''BTCUSD'' \<and>
   map status (orders (run no_raise two_sells example_system)) = [''filled'', ''filled''] \<and>
   account_manager (run no_raise two_sells example_system) = account_manager example_system \<and>
   position_of (risk_manager (run no_raise two_sells example_system)) (Some ''acc1'') ''BTCUSD''
     = - 1200"
  by (simp add: two_sells_def example_system_def example_intent_def submit_order_def
      Order_init_def check_risk_limits_def get_account_def funded_account_def get_or_def
      notify_order_update_def no_raise_def run_def update_order_status_def
      update_one_order_def risk_callback_def update_position_def update_pnl_def
      position_of_def Let_def RiskManager_init_def)

end
